theory Spec2Isabelle
  imports Main
begin

section \<open>The player actor of src/game-objects/Player.ts\<close>

text \<open>
  The class \<open>Player\<close> is embedded as a record of its fields, each method as a function
  from the state before the call to the state after it. The scene the player holds
  (\<open>this.scene\<close>) is a field of the record, as in the source; of the scene only the
  parts the class touches are kept: the registry entry of the hit points, and the calls
  made on the scene's factories (sprites added, timer events added, arrows constructed,
  colliders added), kept as logs in call order.

  Numbers: times, coordinates and velocities are JavaScript numbers holding integers
  that the class only copies, compares or subtracts within the range of times; they are
  modelled as \<open>int\<close>. The hit points are a double of integer value, and the one sum
  the class computes on them is rounded as a double is. The wall clock
  (\<open>new Date().getTime()\<close>) is a parameter \<open>now\<close> of the methods that read it.
\<close>

subsection \<open>Constants\<close>

definition HIT_DELAY :: int where "HIT_DELAY = 500"
definition PLAYER_SPEED :: int where "PLAYER_SPEED = 100"
definition PLAYER_SHOOTING_TIME :: int where "PLAYER_SHOOTING_TIME = 300"
definition DISTANCE_BETWEEN_HEARTS :: int where "DISTANCE_BETWEEN_HEARTS = 15"
definition PLAYER_RELOAD :: int where "PLAYER_RELOAD = 500"
definition MAX_HP :: int where "MAX_HP = 3"

subsection \<open>Data\<close>

text \<open>\<open>'up' | 'down' | 'left' | 'right'\<close>\<close>

datatype orientation = Up | Down | Left | Right

fun direction_name :: "orientation \<Rightarrow> string" where
  "direction_name Up = ''up''"
| "direction_name Down = ''down''"
| "direction_name Left = ''left''"
| "direction_name Right = ''right''"

text \<open>
  What \<open>registry.get(REGISTRY_KEYS.PLAYER.HP)\<close> can return: \<open>undefined\<close> when
  the key was never set, otherwise the number stored. The numbers are doubles; \<open>Num a\<close>
  is the double whose value is the integer \<open>a\<close>, and the two infinities are what a sum
  too large for a double becomes. \<open>NaN\<close> is what \<open>undefined\<close> plus a number gives.
\<close>

datatype jsnum = Undefined | NaN | Num int | PosInfinity | NegInfinity

text \<open>\<open>!v\<close>: \<open>undefined\<close>, \<open>NaN\<close> and \<open>0\<close> are the falsy ones.\<close>

fun falsy :: "jsnum \<Rightarrow> bool" where
  "falsy Undefined = True"
| "falsy NaN = True"
| "falsy (Num n) = (n = 0)"
| "falsy PosInfinity = False"
| "falsy NegInfinity = False"

text \<open>
  The double nearest to an integer \<open>x\<close>, ties to the even mantissa. A double has 53
  bits of mantissa: every integer up to \<open>2^53\<close> in magnitude is a double; a larger one
  with \<open>53 + e\<close> bits is rounded to a multiple of \<open>2^e\<close>.
\<close>

fun bit_length :: "nat \<Rightarrow> nat" where
  "bit_length n = (if n = 0 then 0 else Suc (bit_length (n div 2)))"

declare bit_length.simps [simp del]

definition round_double :: "int \<Rightarrow> int" where
  "round_double x =
     (if \<bar>x\<bar> \<le> 2 ^ 53 then x
      else
        (let q = 2 ^ (bit_length (nat \<bar>x\<bar>) - 53);
             m = \<bar>x\<bar> div q;
             r = \<bar>x\<bar> mod q;
             m' = (if q < 2 * r \<or> (2 * r = q \<and> odd m) then m + 1 else m)
         in sgn x * (m' * q)))"

text \<open>
  \<open>v + n\<close> for a number \<open>n\<close>: the exact sum rounded to a double, an infinity from
  \<open>2^1024\<close> on.
\<close>

fun js_add :: "jsnum \<Rightarrow> int \<Rightarrow> jsnum" where
  "js_add (Num a) n =
     (let s = round_double (a + n)
      in if 2 ^ 1024 \<le> s then PosInfinity
         else if s \<le> - (2 ^ 1024) then NegInfinity
         else Num s)"
| "js_add Undefined n = NaN"
| "js_add NaN n = NaN"
| "js_add PosInfinity n = PosInfinity"
| "js_add NegInfinity n = NegInfinity"

text \<open>\<open>v > n\<close> and \<open>i >= v\<close>: every comparison with \<open>NaN\<close> (and with
  \<open>undefined\<close>, which converts to it) is false.\<close>

fun js_gt :: "jsnum \<Rightarrow> int \<Rightarrow> bool" where
  "js_gt (Num a) n = (a > n)"
| "js_gt Undefined n = False"
| "js_gt NaN n = False"
| "js_gt PosInfinity n = True"
| "js_gt NegInfinity n = False"

fun js_ge :: "nat \<Rightarrow> jsnum \<Rightarrow> bool" where
  "js_ge i (Num a) = (int i \<ge> a)"
| "js_ge i Undefined = False"
| "js_ge i NaN = False"
| "js_ge i PosInfinity = False"
| "js_ge i NegInfinity = True"

datatype error = RangeError

text \<open>
  The length of \<open>Array(v)\<close>: a number must be an integer from 0 to \<open>2^32 - 1\<close>, or
  the call throws a RangeError; any other single argument gives the one-element array
  holding it.
\<close>

fun Array_length :: "jsnum \<Rightarrow> error + nat" where
  "Array_length (Num a) = (if 0 \<le> a \<and> a < 2 ^ 32 then Inr (nat a) else Inl RangeError)"
| "Array_length NaN = Inl RangeError"
| "Array_length Undefined = Inr 1"
| "Array_length PosInfinity = Inl RangeError"
| "Array_length NegInfinity = Inl RangeError"

text \<open>
  Modelled from the spec: the scene that builds the input snapshot is not part of the
  sources; the spec says the snapshot has the named boolean fields up, down, left, right,
  space (melee) and shift (ranged).
\<close>

record keyPressed =
  left :: bool
  right :: bool
  up :: bool
  down :: bool
  space :: bool
  shift :: bool

text \<open>\<open>Object.values(keyPressed)\<close>\<close>

definition Object_values :: "keyPressed \<Rightarrow> bool list" where
  "Object_values kp = [left kp, right kp, up kp, down kp, space kp, shift kp]"

text \<open>
  A sprite made by \<open>scene.add.sprite(x, y, texture)\<close>: its texture key, its position and
  its alpha (1 when created). Scroll factor, depth and scale are set once at creation and
  never read by the class; they are left out.
\<close>

record sprite =
  texture :: string
  spriteX :: int
  spriteY :: int
  alpha :: int

definition new_sprite :: "int \<Rightarrow> int \<Rightarrow> string \<Rightarrow> sprite" where
  "new_sprite sx sy key = \<lparr>texture = key, spriteX = sx, spriteY = sy, alpha = 1\<rparr>"

text \<open>
  The physics sprite \<open>this.gameObject\<close>: position (\<open>x\<close>, \<open>y\<close> in the source), the
  \<open>active\<close> flag that \<open>destroy()\<close> clears, the velocity of its body, the horizontal
  mirror and the key of the animation last played (none at creation). Origin, body size,
  depth and world-bounds collision are set once by the constructor and never read.
\<close>

record gameObject =
  posX :: int
  posY :: int
  active :: bool
  velocityX :: int
  velocityY :: int
  flipX :: bool
  anim :: "string option"

text \<open>The two callbacks the class hands to \<open>scene.time.addEvent\<close>.\<close>

datatype callback = ReadyToFire | EndShoot

record timerEvent =
  delay :: int
  callback :: callback

text \<open>
  Modelled from the spec: the class \<open>Arrow\<close> (./Arrow) is not part of the sources; the
  spec says it is constructed from (scene, firing actor, orientation). An arrow is
  recorded as the arguments of its constructor call: the orientation passed and the
  position of the firing actor's game object at that moment.
\<close>

record arrow =
  arrowOrientation :: orientation
  firedFromX :: int
  firedFromY :: int

text \<open>A hostile entity of \<open>scene.treants\<close>, by an identifier.\<close>

type_synonym treant = nat

text \<open>
  Modelled from the spec: the scene class (../scenes/AbstractScene) and the registry keys
  (../constants/registry) are not part of the sources; the spec says the scene supplies a
  key/value store for the hit points, a one-shot delayed callback, sprite factories and
  the hostile entities known at the moment. The record keeps the value stored under
  \<open>REGISTRY_KEYS.PLAYER.HP\<close>, the list \<open>scene.treants\<close>, and a log for each factory
  the player calls: \<open>scene.add.sprite\<close>, \<open>scene.time.addEvent\<close>, \<open>new Arrow\<close> and
  \<open>scene.physics.add.collider\<close>, which pairs the index of an arrow in \<open>arrows\<close> with
  the treant it was registered against.
\<close>

record scene =
  registryHp :: jsnum
  added :: "sprite list"
  timeEvents :: "timerEvent list"
  arrows :: "arrow list"
  colliders :: "(nat \<times> treant) list"
  treants :: "treant list"

record player =
  scene :: scene
  gameObject :: gameObject
  orientation :: orientation
  lastTimeHit :: int
  isLoading :: bool
  isShooting :: bool
  tomb :: "sprite option"
  hearts :: "sprite list"

subsection \<open>Calls on the game object and the scene\<close>

definition setVelocity :: "int \<Rightarrow> player \<Rightarrow> player" where
  "setVelocity v p = p\<lparr>gameObject := (gameObject p)\<lparr>velocityX := v, velocityY := v\<rparr>\<rparr>"

definition setVelocityX :: "int \<Rightarrow> player \<Rightarrow> player" where
  "setVelocityX v p = p\<lparr>gameObject := (gameObject p)\<lparr>velocityX := v\<rparr>\<rparr>"

definition setVelocityY :: "int \<Rightarrow> player \<Rightarrow> player" where
  "setVelocityY v p = p\<lparr>gameObject := (gameObject p)\<lparr>velocityY := v\<rparr>\<rparr>"

definition setFlipX :: "bool \<Rightarrow> player \<Rightarrow> player" where
  "setFlipX b p = p\<lparr>gameObject := (gameObject p)\<lparr>flipX := b\<rparr>\<rparr>"

definition play :: "string \<Rightarrow> player \<Rightarrow> player" where
  "play key p = p\<lparr>gameObject := (gameObject p)\<lparr>anim := Some key\<rparr>\<rparr>"

definition destroy :: "player \<Rightarrow> player" where
  "destroy p = p\<lparr>gameObject := (gameObject p)\<lparr>active := False\<rparr>\<rparr>"

definition add_sprite :: "sprite \<Rightarrow> player \<Rightarrow> player" where
  "add_sprite s p = p\<lparr>scene := (scene p)\<lparr>added := added (scene p) @ [s]\<rparr>\<rparr>"

definition addEvent :: "int \<Rightarrow> callback \<Rightarrow> player \<Rightarrow> player" where
  "addEvent d c p =
     p\<lparr>scene := (scene p)\<lparr>timeEvents := timeEvents (scene p) @ [\<lparr>delay = d, callback = c\<rparr>]\<rparr>\<rparr>"

subsection \<open>Hit points and hearts\<close>

definition getHp :: "player \<Rightarrow> jsnum" where
  "getHp p = registryHp (scene p)"

definition setHp :: "jsnum \<Rightarrow> player \<Rightarrow> player" where
  "setHp newHp p = p\<lparr>scene := (scene p)\<lparr>registryHp := newHp\<rparr>\<rparr>"

definition addHp :: "int \<Rightarrow> player \<Rightarrow> player" where
  "addHp hpToAdd p = (let hp = registryHp (scene p) in setHp (js_add hp hpToAdd) p)"

definition heart_at :: "string \<Rightarrow> nat \<Rightarrow> sprite" where
  "heart_at key i =
     new_sprite ((int i + 1) * DISTANCE_BETWEEN_HEARTS) DISTANCE_BETWEEN_HEARTS key"

text \<open>
  \<open>initHearts\<close>: \<open>MAX_HP\<close> empty hearts are added to the scene, then one heart for each
  hit point. \<open>Array(this.getHp())\<close> throws when the hit points are not an array length;
  the scene at that moment is returned with the error.
\<close>

definition initHearts :: "player \<Rightarrow> (error \<times> scene) + player" where
  "initHearts p =
     (let p1 = p\<lparr>scene := (scene p)\<lparr>added := added (scene p) @
                   map (heart_at ''heart-empty'') [0..<nat MAX_HP]\<rparr>\<rparr>
      in case Array_length (getHp p1) of
           Inl e \<Rightarrow> Inl (e, scene p1)
         | Inr n \<Rightarrow>
             (let hs = map (heart_at ''heart'') [0..<n]
              in Inr (p1\<lparr>scene := (scene p1)\<lparr>added := added (scene p1) @ hs\<rparr>, hearts := hs\<rparr>)))"

definition hide_from :: "jsnum \<Rightarrow> nat \<times> sprite \<Rightarrow> sprite" where
  "hide_from hp ih = (if js_ge (fst ih) hp then (snd ih)\<lparr>alpha := 0\<rparr> else snd ih)"

definition updateHearts :: "player \<Rightarrow> player" where
  "updateHearts p = p\<lparr>hearts := map (hide_from (getHp p)) (enumerate 0 (hearts p))\<rparr>"

subsection \<open>Construction\<close>

definition Player_new :: "scene \<Rightarrow> int \<Rightarrow> int \<Rightarrow> int \<Rightarrow> (error \<times> scene) + player" where
  "Player_new sc x0 y0 now =
     (let registryHp = registryHp sc;
          sc1 = (if falsy registryHp then sc\<lparr>registryHp := Num MAX_HP\<rparr> else sc)
      in initHearts
           \<lparr>scene = sc1,
            gameObject = \<lparr>posX = x0, posY = y0, active = True, velocityX = 0, velocityY = 0,
                          flipX = False, anim = None\<rparr>,
            orientation = Down,
            lastTimeHit = now,
            isLoading = False,
            isShooting = False,
            tomb = None,
            hearts = []\<rparr>)"

subsection \<open>Damage\<close>

definition canGetHit :: "int \<Rightarrow> player \<Rightarrow> bool" where
  "canGetHit now p = (now - lastTimeHit p > HIT_DELAY)"

definition loseHp :: "int \<Rightarrow> player \<Rightarrow> player" where
  "loseHp now p =
     (let p1 = addHp (- 1) p;
          p2 = updateHearts p1;
          p3 = p2\<lparr>lastTimeHit := now\<rparr>
      in if js_gt (getHp p3) 0 then p3
         else
           (let p4 = (if tomb p3 = None
                      then (let t = new_sprite (posX (gameObject p3)) (posY (gameObject p3)) ''tomb''
                            in (add_sprite t p3)\<lparr>tomb := Some t\<rparr>)
                      else p3)
            in destroy p4))"

subsection \<open>Timed locks\<close>

definition reload :: "player \<Rightarrow> player" where
  "reload p = addEvent PLAYER_RELOAD ReadyToFire (p\<lparr>isLoading := True\<rparr>)"

definition readyToFire :: "player \<Rightarrow> player" where
  "readyToFire p = p\<lparr>isLoading := False\<rparr>"

definition endShoot :: "player \<Rightarrow> player" where
  "endShoot p = p\<lparr>isShooting := False\<rparr>"

text \<open>What the scene's clock does when an event's delay has passed.\<close>

fun fire :: "callback \<Rightarrow> player \<Rightarrow> player" where
  "fire ReadyToFire p = readyToFire p"
| "fire EndShoot p = endShoot p"

subsection \<open>Movement\<close>

definition go :: "orientation \<Rightarrow> bool \<Rightarrow> player \<Rightarrow> player" where
  "go direction shouldAnimate p =
     (let p1 = (case direction of
                  Left \<Rightarrow> setVelocityX (- PLAYER_SPEED) p
                | Right \<Rightarrow> setVelocityX PLAYER_SPEED p
                | Up \<Rightarrow> setVelocityY (- PLAYER_SPEED) p
                | Down \<Rightarrow> setVelocityY PLAYER_SPEED p)
      in if \<not> shouldAnimate then p1
         else play (''player-move-'' @ direction_name direction)
                ((setFlipX (direction = Left) p1)\<lparr>orientation := direction\<rparr>))"

definition handleHorizontalMovement :: "keyPressed \<Rightarrow> player \<Rightarrow> player" where
  "handleHorizontalMovement kp p =
     (let isUpDownPressed = (up kp \<or> down kp)
      in if left kp then go Left (\<not> isUpDownPressed) p
         else if right kp then go Right (\<not> isUpDownPressed) p
         else p)"

definition handleVerticalMovement :: "keyPressed \<Rightarrow> player \<Rightarrow> player" where
  "handleVerticalMovement kp p =
     (if up kp then go Up True p
      else if down kp then go Down True p
      else p)"

definition handleMovement :: "keyPressed \<Rightarrow> player \<Rightarrow> player" where
  "handleMovement kp p =
     (if isShooting p then p
      else handleVerticalMovement kp (handleHorizontalMovement kp p))"

subsection \<open>Attacks and idling\<close>

fun punch_animSwitch :: "orientation \<Rightarrow> bool \<times> string" where
  "punch_animSwitch Down = (False, ''player-attack-down'')"
| "punch_animSwitch Up = (False, ''player-attack-up'')"
| "punch_animSwitch Left = (True, ''player-attack-side'')"
| "punch_animSwitch Right = (False, ''player-attack-side'')"

definition punch :: "player \<Rightarrow> player" where
  "punch p =
     play (snd (punch_animSwitch (orientation p)))
       (setFlipX (fst (punch_animSwitch (orientation p))) p)"

fun idle_animSwitch :: "orientation \<Rightarrow> bool \<times> string" where
  "idle_animSwitch Down = (False, ''player-idle-down'')"
| "idle_animSwitch Up = (False, ''player-idle-up'')"
| "idle_animSwitch Left = (True, ''player-idle-side'')"
| "idle_animSwitch Right = (False, ''player-idle-side'')"

definition beIdle :: "player \<Rightarrow> player" where
  "beIdle p =
     play (snd (idle_animSwitch (orientation p)))
       (setFlipX (fst (idle_animSwitch (orientation p))) p)"

fun shoot_animSwitch :: "orientation \<Rightarrow> string" where
  "shoot_animSwitch Down = ''player-attack-weapon-down''"
| "shoot_animSwitch Up = ''player-attack-weapon-up''"
| "shoot_animSwitch Left = ''player-attack-weapon-side''"
| "shoot_animSwitch Right = ''player-attack-weapon-side''"

text \<open>\<open>new Arrow(this.scene, this, this.orientation)\<close>: the new arrow's index and the
  state with the arrow recorded.\<close>

definition new_Arrow :: "player \<Rightarrow> nat \<times> player" where
  "new_Arrow p =
     (length (arrows (scene p)),
      p\<lparr>scene := (scene p)\<lparr>arrows := arrows (scene p) @
           [\<lparr>arrowOrientation = orientation p,
             firedFromX = posX (gameObject p),
             firedFromY = posY (gameObject p)\<rparr>]\<rparr>\<rparr>)"

definition shoot :: "player \<Rightarrow> nat \<times> player" where
  "shoot p =
     (let p1 = addEvent PLAYER_SHOOTING_TIME EndShoot (p\<lparr>isShooting := True\<rparr>);
          p2 = play (shoot_animSwitch (orientation p1)) p1
      in new_Arrow p2)"

text \<open>
  \<open>handleShootKey\<close>: one collider for each treant of the scene, between the new arrow
  and the treant. The handler passed with it is what \<open>treant.treantLoseHp\<close> returns; it
  is the treant's own and is not modelled.
\<close>

definition handleShootKey :: "keyPressed \<Rightarrow> player \<Rightarrow> player" where
  "handleShootKey kp p =
     (if shift kp then
        (if isLoading p then p
         else
           (let p1 = reload p;
                (arrow, p2) = shoot p1
            in p2\<lparr>scene := (scene p2)\<lparr>colliders := colliders (scene p2) @
                     map (\<lambda>treant. (arrow, treant)) (treants (scene p2))\<rparr>\<rparr>))
      else p)"

subsection \<open>The frame update\<close>

definition update :: "keyPressed \<Rightarrow> player \<Rightarrow> player" where
  "update kp p =
     (if \<not> active (gameObject p) then p
      else
        (let p1 = setVelocity 0 p;
             p2 = handleMovement kp p1;
             p3 = (if space kp then punch p2 else p2);
             noKeyPressed = (length (filter (\<lambda>x. x) (Object_values kp)) = 0);
             p4 = (if noKeyPressed \<and> \<not> isLoading p3 then beIdle p3 else p3)
         in handleShootKey kp p4))"

subsection \<open>Sequences of calls\<close>

text \<open>The registry entry a construction leaves behind, whether it returned or threw.\<close>

definition registry_after :: "(error \<times> scene) + player \<Rightarrow> jsnum" where
  "registry_after r = (case r of Inl es \<Rightarrow> registryHp (snd es) | Inr p \<Rightarrow> getHp p)"

text \<open>Further calls of \<open>loseHp\<close>, one at each time of the list.\<close>

fun loseHp_calls :: "int list \<Rightarrow> player \<Rightarrow> player" where
  "loseHp_calls [] p = p"
| "loseHp_calls (t # ts) p = loseHp_calls ts (loseHp t p)"

text \<open>
  Several players can be constructed on one scene; they share its registry. A world is
  the scene as it is now and the players constructed on it, each as its last call left
  it; \<open>player_at\<close> is a player seeing the scene as it is now, and \<open>on_player\<close> makes a
  call on one player and lets the scene take its effects.
\<close>

record world =
  shared :: scene
  players :: "player list"

definition player_at :: "world \<Rightarrow> nat \<Rightarrow> player" where
  "player_at w i = (players w ! i)\<lparr>scene := shared w\<rparr>"

definition on_player :: "nat \<Rightarrow> (player \<Rightarrow> player) \<Rightarrow> world \<Rightarrow> world" where
  "on_player i f w =
     (let p = f (player_at w i) in \<lparr>shared = scene p, players = (players w)[i := p]\<rparr>)"

text \<open>
  What can happen in a world: the construction of a player, and on a player that exists
  a frame update, a hit or a timer callback. A hit is dealt only while the stored hit
  points are above 0 (the callers' duty); \<open>step\<close> is \<open>None\<close> where that is not so
  and where the player does not exist. A construction that throws adds no player and
  leaves the scene as it was at the throw.
\<close>

datatype operation =
  Construct int int int | Update nat keyPressed | LoseHp nat int | Fire nat callback

fun step :: "operation \<Rightarrow> world \<Rightarrow> world option" where
  "step (Construct x0 y0 now) w =
     (case Player_new (shared w) x0 y0 now of
        Inl es \<Rightarrow> Some (w\<lparr>shared := snd es\<rparr>)
      | Inr p \<Rightarrow> Some \<lparr>shared = scene p, players = players w @ [p]\<rparr>)"
| "step (Update i kp) w =
     (if i < length (players w) then Some (on_player i (update kp) w) else None)"
| "step (LoseHp i now) w =
     (if i < length (players w) \<and> js_gt (registryHp (shared w)) 0
      then Some (on_player i (loseHp now) w) else None)"
| "step (Fire i c) w =
     (if i < length (players w) then Some (on_player i (fire c) w) else None)"

fun run :: "operation list \<Rightarrow> world \<Rightarrow> world option" where
  "run [] w = Some w"
| "run (a # as) w = (case step a w of None \<Rightarrow> None | Some v \<Rightarrow> run as v)"

text \<open>
  The stored hit points are a number from 0 to \<open>MAX_HP\<close>; before the first
  construction the entry may also be one that the constructor replaces.
\<close>

fun hp_in_range :: "jsnum \<Rightarrow> bool" where
  "hp_in_range (Num h) = (0 \<le> h \<and> h \<le> MAX_HP)"
| "hp_in_range Undefined = False"
| "hp_in_range NaN = False"
| "hp_in_range PosInfinity = False"
| "hp_in_range NegInfinity = False"

definition world_invariant :: "world \<Rightarrow> bool" where
  "world_invariant w =
     ((falsy (registryHp (shared w)) \<or> hp_in_range (registryHp (shared w))) \<and>
      (players w \<noteq> [] \<longrightarrow> hp_in_range (registryHp (shared w))))"

subsection \<open>Concrete states and inputs\<close>

text \<open>
  A scene with an empty registry and two treants, and the player constructed on it at
  (10, 20) at time 1000.
\<close>

definition demo_scene :: scene where
  "demo_scene = \<lparr>registryHp = Undefined, added = [], timeEvents = [], arrows = [],
                  colliders = [], treants = [7, 8]\<rparr>"

definition demo_hearts :: "sprite list" where
  "demo_hearts =
     [\<lparr>texture = ''heart'', spriteX = 15, spriteY = 15, alpha = 1\<rparr>,
      \<lparr>texture = ''heart'', spriteX = 30, spriteY = 15, alpha = 1\<rparr>,
      \<lparr>texture = ''heart'', spriteX = 45, spriteY = 15, alpha = 1\<rparr>]"

definition demo_player :: player where
  "demo_player =
     \<lparr>scene = \<lparr>registryHp = Num 3,
                added = [\<lparr>texture = ''heart-empty'', spriteX = 15, spriteY = 15, alpha = 1\<rparr>,
                         \<lparr>texture = ''heart-empty'', spriteX = 30, spriteY = 15, alpha = 1\<rparr>,
                         \<lparr>texture = ''heart-empty'', spriteX = 45, spriteY = 15, alpha = 1\<rparr>]
                        @ demo_hearts,
                timeEvents = [], arrows = [], colliders = [], treants = [7, 8]\<rparr>,
      gameObject = \<lparr>posX = 10, posY = 20, active = True, velocityX = 0, velocityY = 0,
                     flipX = False, anim = None\<rparr>,
      orientation = Down, lastTimeHit = 1000, isLoading = False, isShooting = False,
      tomb = None, hearts = demo_hearts\<rparr>"

text \<open>The same player after three hits, at times 2000, 3000 and 4000.\<close>

definition dead_player :: player where
  "dead_player = loseHp 4000 (loseHp 3000 (loseHp 2000 demo_player))"

text \<open>The dead player after \<open>2^53\<close> further hits, all at time 5000.\<close>

definition worn_player :: player where
  "worn_player = loseHp_calls (replicate (2 ^ 53) 5000) dead_player"

definition no_keys :: keyPressed where
  "no_keys = \<lparr>left = False, right = False, up = False, down = False,
               space = False, shift = False\<rparr>"

definition shift_left_held :: keyPressed where
  "shift_left_held = \<lparr>left = True, right = False, up = False, down = False,
                       space = False, shift = True\<rparr>"

definition up_left_held :: keyPressed where
  "up_left_held = \<lparr>left = True, right = False, up = True, down = False,
                    space = False, shift = False\<rparr>"

definition shift_held :: keyPressed where
  "shift_held = \<lparr>left = False, right = False, up = False, down = False,
                  space = False, shift = True\<rparr>"

definition left_held :: keyPressed where
  "left_held = \<lparr>left = True, right = False, up = False, down = False,
                 space = False, shift = False\<rparr>"

text \<open>
  Two players constructed on the empty scene, then three hits on the first of them.
\<close>

definition empty_world :: world where
  "empty_world = \<lparr>shared = demo_scene, players = []\<rparr>"

definition two_players_ops :: "operation list" where
  "two_players_ops =
     [Construct 10 20 1000, Construct 50 60 1500, LoseHp 0 2000, LoseHp 0 3000, LoseHp 0 4000]"

section \<open>Properties\<close>

subsection \<open>Unfolding and frame lemmas\<close>

lemmas call_defs = setVelocity_def setVelocityX_def setVelocityY_def setFlipX_def play_def
  destroy_def add_sprite_def addEvent_def getHp_def setHp_def addHp_def

lemmas const_defs = HIT_DELAY_def PLAYER_SPEED_def PLAYER_SHOOTING_TIME_def
  DISTANCE_BETWEEN_HEARTS_def PLAYER_RELOAD_def MAX_HP_def

lemmas move_defs = go_def handleHorizontalMovement_def handleVerticalMovement_def
  handleMovement_def

lemmas act_defs = punch_def beIdle_def shoot_def new_Arrow_def reload_def readyToFire_def
  endShoot_def handleShootKey_def

lemmas demo_defs = demo_scene_def demo_hearts_def demo_player_def no_keys_def
  shift_left_held_def up_left_held_def shift_held_def left_held_def

declare js_add.simps(1) [simp del]

lemma js_add_exact:
  assumes "\<bar>a + n\<bar> \<le> 2 ^ 53"
  shows "js_add (Num a) n = Num (a + n)"
proof -
  have r: "round_double (a + n) = a + n"
    using assms by (simp add: round_double_def)
  have "(2::int) ^ 53 < 2 ^ 1024"
    by (rule power_strict_increasing) simp_all
  with assms have "\<not> 2 ^ 1024 \<le> a + n" and "\<not> a + n \<le> - (2 ^ 1024)"
    by linarith+
  then show ?thesis
    by (simp only: js_add.simps(1) r Let_def if_False)
qed

lemma bit_length_between:
  "2 ^ k \<le> n \<Longrightarrow> n < 2 ^ Suc k \<Longrightarrow> bit_length n = Suc k"
proof (induction k arbitrary: n)
  case 0
  then have "n = 1" by simp
  then show ?case by (simp add: bit_length.simps)
next
  case (Suc k)
  have "2 ^ k \<le> n div 2" and "n div 2 < 2 ^ Suc k"
    using Suc.prems by simp_all
  then have "bit_length (n div 2) = Suc k" by (rule Suc.IH)
  moreover have "n \<noteq> 0"
  proof
    assume "n = 0"
    with Suc.prems(1) have "(2::nat) ^ Suc k \<le> 0" by simp
    then show False by simp
  qed
  ultimately show ?case by (subst bit_length.simps) simp
qed

lemma js_add_rounds: "js_add (Num (- (2 ^ 53))) (- 1) = Num (- (2 ^ 53))"
proof -
  have b: "bit_length 9007199254740993 = 54"
    using bit_length_between [of 53 9007199254740993] by simp
  show ?thesis
    by (simp add: js_add.simps(1) round_double_def b Let_def)
qed

lemma numeral_upt_3: "[0..<3] = [0, 1, 2]"
  by (simp add: upt_rec)

lemma Player_new_demo: "Player_new demo_scene 10 20 1000 = Inr demo_player"
  by (simp add: Player_new_def initHearts_def heart_at_def new_sprite_def demo_defs
      call_defs const_defs Let_def numeral_upt_3)

lemma dead_player_facts:
  "\<not> active (gameObject dead_player)"
  "\<not> isLoading dead_player"
  "\<not> isShooting dead_player"
  "arrows (scene dead_player) = []"
  "timeEvents (scene dead_player) = []"
  "getHp dead_player = Num 0"
  "map alpha (hearts dead_player) = [0, 0, 0]"
  by (simp_all add: dead_player_def loseHp_def updateHearts_def hide_from_def new_sprite_def
      call_defs js_add_exact demo_defs Let_def)

lemma setVelocity_frame:
  "scene (setVelocity v p) = scene p"
  "isLoading (setVelocity v p) = isLoading p"
  "isShooting (setVelocity v p) = isShooting p"
  "orientation (setVelocity v p) = orientation p"
  "hearts (setVelocity v p) = hearts p"
  "tomb (setVelocity v p) = tomb p"
  "lastTimeHit (setVelocity v p) = lastTimeHit p"
  "active (gameObject (setVelocity v p)) = active (gameObject p)"
  by (simp_all add: setVelocity_def)

lemma go_frame:
  "scene (go d b p) = scene p"
  "isLoading (go d b p) = isLoading p"
  "isShooting (go d b p) = isShooting p"
  "hearts (go d b p) = hearts p"
  "tomb (go d b p) = tomb p"
  "lastTimeHit (go d b p) = lastTimeHit p"
  "active (gameObject (go d b p)) = active (gameObject p)"
  by (cases d; simp add: go_def call_defs Let_def)+

lemma handleMovement_frame:
  "scene (handleMovement kp p) = scene p"
  "isLoading (handleMovement kp p) = isLoading p"
  "isShooting (handleMovement kp p) = isShooting p"
  "hearts (handleMovement kp p) = hearts p"
  "tomb (handleMovement kp p) = tomb p"
  "lastTimeHit (handleMovement kp p) = lastTimeHit p"
  "active (gameObject (handleMovement kp p)) = active (gameObject p)"
  by (simp_all add: handleMovement_def handleHorizontalMovement_def
      handleVerticalMovement_def go_frame)

lemma handleMovement_ignores_shift:
  "handleMovement (kp\<lparr>shift := b\<rparr>) p = handleMovement kp p"
  by (simp add: handleMovement_def handleHorizontalMovement_def handleVerticalMovement_def)

lemma punch_frame:
  "scene (punch p) = scene p"
  "isLoading (punch p) = isLoading p"
  "isShooting (punch p) = isShooting p"
  "orientation (punch p) = orientation p"
  "hearts (punch p) = hearts p"
  "tomb (punch p) = tomb p"
  "lastTimeHit (punch p) = lastTimeHit p"
  "active (gameObject (punch p)) = active (gameObject p)"
  by (simp_all add: punch_def call_defs)

lemma beIdle_frame:
  "scene (beIdle p) = scene p"
  "isLoading (beIdle p) = isLoading p"
  "isShooting (beIdle p) = isShooting p"
  "orientation (beIdle p) = orientation p"
  "hearts (beIdle p) = hearts p"
  "tomb (beIdle p) = tomb p"
  "lastTimeHit (beIdle p) = lastTimeHit p"
  "active (gameObject (beIdle p)) = active (gameObject p)"
  by (simp_all add: beIdle_def call_defs)

lemma handleShootKey_frame:
  "registryHp (scene (handleShootKey kp p)) = registryHp (scene p)"
  "added (scene (handleShootKey kp p)) = added (scene p)"
  "treants (scene (handleShootKey kp p)) = treants (scene p)"
  "orientation (handleShootKey kp p) = orientation p"
  "hearts (handleShootKey kp p) = hearts p"
  "tomb (handleShootKey kp p) = tomb p"
  "lastTimeHit (handleShootKey kp p) = lastTimeHit p"
  "active (gameObject (handleShootKey kp p)) = active (gameObject p)"
  by (simp_all add: act_defs call_defs Let_def)

lemmas step_frames = setVelocity_frame handleMovement_frame punch_frame beIdle_frame

lemma update_frame:
  "registryHp (scene (update kp p)) = registryHp (scene p)"
  "added (scene (update kp p)) = added (scene p)"
  "treants (scene (update kp p)) = treants (scene p)"
  "hearts (update kp p) = hearts p"
  "tomb (update kp p) = tomb p"
  "lastTimeHit (update kp p) = lastTimeHit p"
  "active (gameObject (update kp p)) = active (gameObject p)"
  by (simp_all add: update_def Let_def handleShootKey_frame step_frames)

lemma handleShootKey_rejected:
  "shift kp \<Longrightarrow> isLoading p \<Longrightarrow> handleShootKey kp p = p"
  by (simp add: handleShootKey_def)

lemma handleShootKey_released:
  "\<not> shift kp \<Longrightarrow> handleShootKey kp p = p"
  by (simp add: handleShootKey_def)

lemma lastTimeHit_loseHp: "lastTimeHit (loseHp t p) = t"
  by (simp add: loseHp_def Let_def destroy_def add_sprite_def)

lemma hearts_updateHearts_nth:
  "i < length (hearts p) \<Longrightarrow>
   hearts (updateHearts p) ! i = hide_from (getHp p) (i, hearts p ! i)"
  by (simp add: updateHearts_def nth_enumerate_eq)

lemma length_hearts_updateHearts: "length (hearts (updateHearts p)) = length (hearts p)"
  by (simp add: updateHearts_def)

lemma updateHearts_frame:
  "scene (updateHearts p) = scene p"
  "gameObject (updateHearts p) = gameObject p"
  "tomb (updateHearts p) = tomb p"
  by (simp_all add: updateHearts_def)

lemma addHp_frame:
  "hearts (addHp n p) = hearts p"
  "gameObject (addHp n p) = gameObject p"
  "tomb (addHp n p) = tomb p"
  "added (scene (addHp n p)) = added (scene p)"
  "getHp (addHp n p) = js_add (getHp p) n"
  by (simp_all add: addHp_def setHp_def getHp_def Let_def)

lemma hearts_loseHp: "hearts (loseHp now p) = hearts (updateHearts (addHp (- 1) p))"
  by (simp add: loseHp_def Let_def destroy_def add_sprite_def)

lemma getHp_loseHp: "getHp (loseHp now p) = js_add (getHp p) (- 1)"
  by (simp add: loseHp_def Let_def destroy_def add_sprite_def updateHearts_def addHp_def
      setHp_def getHp_def)

lemma loseHp_survives:
  assumes "js_gt (js_add (getHp p) (- 1)) 0"
  shows "gameObject (loseHp now p) = gameObject p"
    and "tomb (loseHp now p) = tomb p"
    and "added (scene (loseHp now p)) = added (scene p)"
  using assms
  by (simp_all add: loseHp_def Let_def updateHearts_def addHp_def setHp_def getHp_def)

lemma loseHp_dies:
  assumes "\<not> js_gt (js_add (getHp p) (- 1)) 0"
  shows "\<not> active (gameObject (loseHp now p))"
    and "tomb p = None \<Longrightarrow> tomb (loseHp now p) =
           Some \<lparr>texture = ''tomb'', spriteX = posX (gameObject p),
                 spriteY = posY (gameObject p), alpha = 1\<rparr>"
    and "tomb p = None \<Longrightarrow> added (scene (loseHp now p)) =
           added (scene p) @ [\<lparr>texture = ''tomb'', spriteX = posX (gameObject p),
                                spriteY = posY (gameObject p), alpha = 1\<rparr>]"
  using assms
  by (simp_all add: loseHp_def Let_def updateHearts_def addHp_def setHp_def getHp_def
      destroy_def add_sprite_def new_sprite_def)

lemma loseHp_keeps_tomb:
  assumes "tomb p \<noteq> None"
  shows "tomb (loseHp now p) = tomb p \<and> added (scene (loseHp now p)) = added (scene p)"
  using assms
  by (cases "tomb p")
     (simp_all add: loseHp_def Let_def updateHearts_def addHp_def setHp_def getHp_def
      destroy_def)

lemma loseHp_calls_keep_tomb:
  "tomb p \<noteq> None \<Longrightarrow>
   tomb (loseHp_calls ts p) = tomb p \<and> added (scene (loseHp_calls ts p)) = added (scene p)"
proof (induction ts arbitrary: p)
  case Nil
  then show ?case by simp
next
  case (Cons t ts)
  have keep: "tomb (loseHp t p) = tomb p \<and> added (scene (loseHp t p)) = added (scene p)"
    using Cons.prems by (rule loseHp_keeps_tomb)
  then have "tomb (loseHp t p) \<noteq> None" using Cons.prems by simp
  from Cons.IH [OF this] keep show ?case by simp
qed

lemma loseHp_dies_tomb: "\<not> js_gt (js_add (getHp p) (- 1)) 0 \<Longrightarrow> tomb (loseHp now p) \<noteq> None"
  by (cases "tomb p = None") (simp_all add: loseHp_dies(2) loseHp_keeps_tomb)

subsection \<open>Damage and death\<close>

lemma loseHp_calls_count_down:
  "getHp p = Num h \<Longrightarrow> h \<le> 0 \<Longrightarrow> - (2 ^ 53) \<le> h - int (length ts) \<Longrightarrow>
   getHp (loseHp_calls ts p) = Num (h - int (length ts))"
proof (induction ts arbitrary: p h)
  case Nil
  then show ?case by simp
next
  case (Cons t ts)
  have "\<bar>h + - 1\<bar> \<le> 2 ^ 53" using Cons.prems(2,3) by simp
  then have "js_add (Num h) (- 1) = Num (h + - 1)" by (rule js_add_exact)
  then have one: "getHp (loseHp t p) = Num (h - 1)"
    using Cons.prems(1) by (simp add: getHp_loseHp)
  have "getHp (loseHp_calls ts (loseHp t p)) = Num (h - 1 - int (length ts))"
    using one Cons.prems(2,3) by (intro Cons.IH) simp_all
  then show ?case by (simp add: algebra_simps)
qed

lemma getHp_worn_player: "getHp worn_player = Num (- (2 ^ 53))"
proof -
  have "getHp (loseHp_calls (replicate (2 ^ 53) 5000) dead_player) =
      Num (0 - int (length (replicate (2 ^ 53) (5000::int))))"
    by (rule loseHp_calls_count_down [OF dead_player_facts(6)]) simp_all
  then show ?thesis by (simp add: worn_player_def)
qed

text \<open>
  C3 (amended). For every call of \<open>loseHp\<close> on a stored number of hit points \<open>h\<close>
  with \<open>- 2^53 < h \<le> 2^53\<close>, where the sum \<open>h + -1\<close> of the code is exact: the
  stored value becomes \<open>h - 1\<close>, \<open>lastTimeHit\<close> becomes the time of the call, and the
  hearts are refreshed against the new value (each heart at an index from \<open>h - 1\<close> on is
  hidden, the others are as they were). While the new value is above 0 the game object,
  the tomb and the scene's sprites are untouched. When it is 0 or less the game object
  is destroyed, and a tomb is made at the game object's position if the player has none
  yet, and only then; whatever calls of \<open>loseHp\<close> follow, the tomb stays the same one
  and no further sprite is added to the scene.
\<close>

theorem loseHp_effect:
  assumes "getHp p = Num h" and "- (2 ^ 53) < h" and "h \<le> 2 ^ 53"
  shows "getHp (loseHp now p) = Num (h - 1) \<and>
    lastTimeHit (loseHp now p) = now \<and>
    length (hearts (loseHp now p)) = length (hearts p) \<and>
    (\<forall>i<length (hearts p).
       hearts (loseHp now p) ! i =
         (if h - 1 \<le> int i then (hearts p ! i)\<lparr>alpha := 0\<rparr> else hearts p ! i)) \<and>
    (0 < h - 1 \<longrightarrow>
       gameObject (loseHp now p) = gameObject p \<and> tomb (loseHp now p) = tomb p \<and>
       added (scene (loseHp now p)) = added (scene p)) \<and>
    (h - 1 \<le> 0 \<longrightarrow>
       \<not> active (gameObject (loseHp now p)) \<and>
       (tomb p = None \<longrightarrow>
          tomb (loseHp now p) =
            Some \<lparr>texture = ''tomb'', spriteX = posX (gameObject p),
                  spriteY = posY (gameObject p), alpha = 1\<rparr> \<and>
          added (scene (loseHp now p)) =
            added (scene p) @ [\<lparr>texture = ''tomb'', spriteX = posX (gameObject p),
                                 spriteY = posY (gameObject p), alpha = 1\<rparr>]) \<and>
       (tomb p \<noteq> None \<longrightarrow>
          tomb (loseHp now p) = tomb p \<and>
          added (scene (loseHp now p)) = added (scene p)) \<and>
       tomb (loseHp_calls ts (loseHp now p)) = tomb (loseHp now p) \<and>
       added (scene (loseHp_calls ts (loseHp now p))) = added (scene (loseHp now p)))"
proof -
  have "\<bar>h + - 1\<bar> \<le> 2 ^ 53" using assms(2,3) by simp
  then have "js_add (Num h) (- 1) = Num (h + - 1)" by (rule js_add_exact)
  then have js: "js_add (Num h) (- 1) = Num (h - 1)" by simp
  have hp: "getHp (loseHp now p) = Num (h - 1)"
    using assms(1) js by (simp add: getHp_loseHp)
  have time: "lastTimeHit (loseHp now p) = now"
    by (rule lastTimeHit_loseHp)
  have len: "length (hearts (loseHp now p)) = length (hearts p)"
    by (simp add: hearts_loseHp length_hearts_updateHearts addHp_frame)
  have nth: "hearts (loseHp now p) ! i =
      (if h - 1 \<le> int i then (hearts p ! i)\<lparr>alpha := 0\<rparr> else hearts p ! i)"
    if "i < length (hearts p)" for i
    using that assms(1) js
    by (simp add: hearts_loseHp hearts_updateHearts_nth addHp_frame hide_from_def)
  have alive: "gameObject (loseHp now p) = gameObject p \<and> tomb (loseHp now p) = tomb p \<and>
      added (scene (loseHp now p)) = added (scene p)" if "0 < h - 1"
    using that assms(1) js by (simp add: loseHp_survives)
  have dies: "\<not> js_gt (js_add (getHp p) (- 1)) 0" if "h - 1 \<le> 0"
    using that assms(1) js by simp
  have later: "tomb (loseHp_calls ts (loseHp now p)) = tomb (loseHp now p) \<and>
      added (scene (loseHp_calls ts (loseHp now p))) = added (scene (loseHp now p))"
    if "h - 1 \<le> 0"
    by (rule loseHp_calls_keep_tomb, rule loseHp_dies_tomb, rule dies, rule that)
  show ?thesis
    using hp time len nth alive later loseHp_dies [OF dies] loseHp_keeps_tomb [of p now]
    by (intro conjI allI impI) simp_all
qed

theorem loseHp_effect_witness:
  "getHp (loseHp 3000 (loseHp 2000 demo_player)) = Num 1 \<and>
   - (2 ^ 53) < (1::int) \<and> (1::int) \<le> 2 ^ 53 \<and>
   getHp dead_player = Num 0 \<and>
   lastTimeHit dead_player = 4000 \<and>
   \<not> active (gameObject dead_player) \<and>
   tomb dead_player = Some \<lparr>texture = ''tomb'', spriteX = 10, spriteY = 20, alpha = 1\<rparr> \<and>
   tomb (loseHp_calls [5000, 6000] dead_player) = tomb dead_player \<and>
   added (scene (loseHp_calls [5000, 6000] dead_player)) = added (scene dead_player)"
proof -
  have one: "getHp (loseHp 3000 (loseHp 2000 demo_player)) = Num 1"
    by (simp add: getHp_loseHp) (simp add: demo_defs getHp_def js_add_exact)
  have lo: "- (2 ^ 53) < (1::int)" and hi: "(1::int) \<le> 2 ^ 53" by simp_all
  have before: "tomb (loseHp 3000 (loseHp 2000 demo_player)) = None"
    "posX (gameObject (loseHp 3000 (loseHp 2000 demo_player))) = 10"
    "posY (gameObject (loseHp 3000 (loseHp 2000 demo_player))) = 20"
    by (simp_all add: loseHp_def updateHearts_def call_defs js_add_exact Let_def demo_defs)
  from loseHp_effect [OF one lo hi, of 4000 "[5000, 6000]"] one before show ?thesis
    by (simp add: dead_player_def)
qed

text \<open>
  The claim as stated, for every call: hit points are doubles, and at a stored
  \<open>- 2^53\<close>, which the dead player reaches by \<open>2^53\<close> further hits, the sum
  \<open>hp + -1\<close> rounds back to \<open>- 2^53\<close>; the call leaves the stored value as it was.
\<close>

theorem loseHp_effect_counterexample:
  "worn_player = loseHp_calls (replicate (2 ^ 53) 5000) dead_player \<and>
   getHp worn_player = Num (- (2 ^ 53)) \<and>
   getHp (loseHp 6000 worn_player) = Num (- (2 ^ 53)) \<and>
   getHp (loseHp 6000 worn_player) \<noteq> Num (- (2 ^ 53) - 1)"
proof -
  have a: "getHp worn_player = Num (- (2 ^ 53))"
    by (rule getHp_worn_player)
  have b: "getHp (loseHp 6000 worn_player) = Num (- (2 ^ 53))"
    by (simp only: getHp_loseHp a js_add_rounds)
  have c: "worn_player = loseHp_calls (replicate (2 ^ 53) 5000) dead_player"
    by (rule worn_player_def)
  have d: "Num (- (2 ^ 53)) \<noteq> Num (- (2 ^ 53) - 1)"
    by simp
  show ?thesis
    by (intro conjI) (rule c, rule a, rule b, simp only: b, rule d)
qed

text \<open>
  C6. For every call of \<open>updateHearts\<close> on a stored number of hit points \<open>h\<close>: the
  hearts keep their number and order, each heart at an index \<open>i \<ge> h\<close> has its alpha
  set to 0 and is otherwise as before, each heart at an index \<open>i < h\<close> is unchanged;
  and a heart whose alpha is 0 still has alpha 0 after \<open>updateHearts\<close>, after
  \<open>loseHp\<close>, after \<open>update\<close> and after either timer callback.
\<close>

theorem updateHearts_hides:
  assumes "getHp p = Num h"
  shows "length (hearts (updateHearts p)) = length (hearts p) \<and>
    (\<forall>i<length (hearts p).
       (h \<le> int i \<longrightarrow> hearts (updateHearts p) ! i = (hearts p ! i)\<lparr>alpha := 0\<rparr>) \<and>
       (int i < h \<longrightarrow> hearts (updateHearts p) ! i = hearts p ! i)) \<and>
    (\<forall>i<length (hearts p). alpha (hearts p ! i) = 0 \<longrightarrow>
       alpha (hearts (updateHearts p) ! i) = 0 \<and>
       alpha (hearts (loseHp now p) ! i) = 0 \<and>
       alpha (hearts (update kp p) ! i) = 0 \<and>
       alpha (hearts (fire c p) ! i) = 0)"
proof -
  have len: "length (hearts (updateHearts p)) = length (hearts p)"
    by (rule length_hearts_updateHearts)
  have hide: "hearts (updateHearts p) ! i = (hearts p ! i)\<lparr>alpha := 0\<rparr>"
    if "i < length (hearts p)" "h \<le> int i" for i
    using that assms by (simp add: hearts_updateHearts_nth hide_from_def)
  have keep: "hearts (updateHearts p) ! i = hearts p ! i"
    if "i < length (hearts p)" "int i < h" for i
    using that assms by (simp add: hearts_updateHearts_nth hide_from_def)
  have hidden1: "alpha (hearts (updateHearts p) ! i) = 0"
    if "i < length (hearts p)" "alpha (hearts p ! i) = 0" for i
    using that by (simp add: hearts_updateHearts_nth hide_from_def)
  have hidden2: "alpha (hearts (loseHp now p) ! i) = 0"
    if "i < length (hearts p)" "alpha (hearts p ! i) = 0" for i
    using that by (simp add: hearts_loseHp hearts_updateHearts_nth addHp_frame hide_from_def)
  have hidden3: "alpha (hearts (update kp p) ! i) = 0"
    if "alpha (hearts p ! i) = 0" for i
    using that by (simp add: update_frame)
  have hidden4: "alpha (hearts (fire c p) ! i) = 0"
    if "alpha (hearts p ! i) = 0" for i
    using that by (cases c) (simp_all add: readyToFire_def endShoot_def)
  show ?thesis
    using len hide keep hidden1 hidden2 hidden3 hidden4
    by (intro conjI allI impI) simp_all
qed

theorem updateHearts_hides_witness:
  "getHp (loseHp 3000 (loseHp 2000 demo_player)) = Num 1 \<and>
   length (hearts (updateHearts (loseHp 3000 (loseHp 2000 demo_player)))) = 3 \<and>
   map alpha (hearts (loseHp 3000 (loseHp 2000 demo_player))) = [1, 0, 0] \<and>
   alpha (hearts (updateHearts (loseHp 3000 (loseHp 2000 demo_player))) ! 1) = 0 \<and>
   alpha (hearts (loseHp 4000 (loseHp 3000 (loseHp 2000 demo_player))) ! 1) = 0 \<and>
   alpha (hearts (update no_keys (loseHp 3000 (loseHp 2000 demo_player))) ! 1) = 0 \<and>
   hearts (updateHearts (loseHp 3000 (loseHp 2000 demo_player))) ! 0 =
     hearts (loseHp 3000 (loseHp 2000 demo_player)) ! 0"
proof -
  let ?p = "loseHp 3000 (loseHp 2000 demo_player)"
  have one: "getHp ?p = Num 1"
    by (simp add: getHp_loseHp) (simp add: demo_defs getHp_def js_add_exact)
  have hs: "map alpha (hearts ?p) = [1, 0, 0]"
    by (simp add: loseHp_def updateHearts_def hide_from_def call_defs js_add_exact Let_def
        demo_defs)
  then have len: "length (hearts ?p) = 3"
    by (metis length_map length_Cons list.size(3) numeral_3_eq_3)
  have a1: "alpha (hearts ?p ! 1) = 0"
    using hs len by (metis nth_map nth_Cons_0 nth_Cons_Suc One_nat_def lessI
        less_SucI numeral_3_eq_3)
  have i0: "(0::nat) < length (hearts ?p)" and i1: "(1::nat) < length (hearts ?p)"
    using len by simp_all
  note w = updateHearts_hides [OF one, of 4000 no_keys ReadyToFire]
  from w i0 have keep0: "hearts (updateHearts ?p) ! 0 = hearts ?p ! 0" by auto
  from w i1 a1 have hid: "alpha (hearts (updateHearts ?p) ! 1) = 0"
    "alpha (hearts (loseHp 4000 ?p) ! 1) = 0" "alpha (hearts (update no_keys ?p) ! 1) = 0"
    by blast+
  from w len have len': "length (hearts (updateHearts ?p)) = 3" by simp
  from one hs len' hid keep0 show ?thesis by simp
qed

subsection \<open>Construction and the registry\<close>

lemma registry_after_Player_new:
  "registry_after (Player_new sc x0 y0 now) =
     (if falsy (registryHp sc) then Num 3 else registryHp sc)"
  by (simp add: registry_after_def Player_new_def initHearts_def getHp_def Let_def MAX_HP_def
      split: sum.splits)

lemma Player_new_returns:
  assumes "registryHp sc = Num h" and "0 < h" and "h < 2 ^ 32"
  shows "\<exists>p. Player_new sc x0 y0 now = Inr p \<and> getHp p = Num h"
  using assms
  by (simp add: Player_new_def initHearts_def getHp_def Let_def)

text \<open>
  C7 (amended). A construction on a registry that holds a non-zero number of hit points
  leaves that number stored (and, for a number from 1 to \<open>2^32 - 1\<close>, returns a player);
  a construction on a registry where the entry is absent, \<open>NaN\<close> or 0 stores
  \<open>MAX_HP\<close> = 3: the test \<open>!registryHp\<close> takes 0 for absent.
\<close>

theorem constructor_keeps_hitPoints:
  "(registryHp sc = Num h \<and> h \<noteq> 0 \<longrightarrow>
      registry_after (Player_new sc x0 y0 now) = Num h) \<and>
   (registryHp sc = Num h \<and> 0 < h \<and> h < 2 ^ 32 \<longrightarrow>
      (\<exists>p. Player_new sc x0 y0 now = Inr p \<and> getHp p = Num h)) \<and>
   (registryHp sc = Undefined \<or> registryHp sc = NaN \<or> registryHp sc = Num 0 \<longrightarrow>
      registry_after (Player_new sc x0 y0 now) = Num 3)"
  using Player_new_returns [of sc h x0 y0 now]
  by (auto simp add: registry_after_Player_new)

theorem constructor_keeps_hitPoints_witness:
  "registryHp (demo_scene\<lparr>registryHp := Num 2\<rparr>) = Num 2 \<and>
   registry_after (Player_new (demo_scene\<lparr>registryHp := Num 2\<rparr>) 10 20 1000) = Num 2 \<and>
   registryHp demo_scene = Undefined \<and>
   registry_after (Player_new demo_scene 10 20 1000) = Num 3"
proof -
  have a: "registryHp (demo_scene\<lparr>registryHp := Num 2\<rparr>) = Num 2" by simp
  have b: "registryHp demo_scene = Undefined" by (simp add: demo_defs)
  from constructor_keeps_hitPoints [of "demo_scene\<lparr>registryHp := Num 2\<rparr>" 2 10 20 1000]
    constructor_keeps_hitPoints [of demo_scene 0 10 20 1000] a b
  show ?thesis by simp
qed

text \<open>
  The claim as stated, for a value that is present: a stored 0 is replaced by 3.
\<close>

theorem constructor_keeps_hitPoints_counterexample:
  "registryHp (demo_scene\<lparr>registryHp := Num 0\<rparr>) = Num 0 \<and>
   registry_after (Player_new (demo_scene\<lparr>registryHp := Num 0\<rparr>) 10 20 1000) = Num 3 \<and>
   registry_after (Player_new (demo_scene\<lparr>registryHp := Num 0\<rparr>) 10 20 1000) \<noteq>
     registryHp (demo_scene\<lparr>registryHp := Num 0\<rparr>)"
  by (simp add: registry_after_Player_new)


subsection \<open>The range of the hit points\<close>

lemma scene_player_at: "scene (player_at w i) = shared w"
  by (simp add: player_at_def)

lemma on_player_frame:
  "shared (on_player i f w) = scene (f (player_at w i))"
  "length (players (on_player i f w)) = length (players w)"
  by (simp_all add: on_player_def Let_def)

lemma Construct_registry:
  assumes "step (Construct x0 y0 now) w = Some v"
  shows "registryHp (shared v) =
    (if falsy (registryHp (shared w)) then Num 3 else registryHp (shared w))"
proof (cases "Player_new (shared w) x0 y0 now")
  case (Inl es)
  with assms have "registryHp (shared v) = registry_after (Player_new (shared w) x0 y0 now)"
    by (auto simp add: registry_after_def)
  then show ?thesis by (simp add: registry_after_Player_new)
next
  case (Inr p)
  with assms have "registryHp (shared v) = registry_after (Player_new (shared w) x0 y0 now)"
    by (auto simp add: registry_after_def getHp_def)
  then show ?thesis by (simp add: registry_after_Player_new)
qed

lemma step_invariant:
  assumes "world_invariant w" and "step a w = Some v"
  shows "world_invariant v"
proof (cases a)
  case (Construct x0 y0 now)
  with assms(2) have
    "registryHp (shared v) =
       (if falsy (registryHp (shared w)) then Num 3 else registryHp (shared w))"
    by (intro Construct_registry) simp
  with assms(1) have "hp_in_range (registryHp (shared v))"
    by (auto simp add: world_invariant_def MAX_HP_def)
  then show ?thesis by (simp add: world_invariant_def)
next
  case (Update i kp)
  with assms(2) have i: "i < length (players w)" and v: "v = on_player i (update kp) w"
    by (auto split: if_splits)
  have "registryHp (shared v) = registryHp (shared w)"
    by (simp add: v on_player_frame update_frame scene_player_at)
  moreover have "players v \<noteq> [] \<longleftrightarrow> players w \<noteq> []"
    using on_player_frame(2) [of i "update kp" w] v by (metis length_0_conv)
  ultimately show ?thesis using assms(1) by (simp add: world_invariant_def)
next
  case (LoseHp i now)
  with assms(2) have i: "i < length (players w)" and pos: "js_gt (registryHp (shared w)) 0"
    and v: "v = on_player i (loseHp now) w"
    by (auto split: if_splits)
  from i have "players w \<noteq> []" by auto
  with assms(1) have "hp_in_range (registryHp (shared w))"
    by (simp add: world_invariant_def)
  with pos obtain h where h: "registryHp (shared w) = Num h" "1 \<le> h" "h \<le> 3"
    by (cases "registryHp (shared w)") (auto simp add: MAX_HP_def)
  have "js_add (Num h) (- 1) = Num (h + - 1)"
    using h(2,3) by (intro js_add_exact) simp
  then have "registryHp (shared v) = Num (h - 1)"
    using getHp_loseHp [of now "player_at w i"] h(1)
    by (simp add: v on_player_frame getHp_def scene_player_at)
  with h(2,3) have "hp_in_range (registryHp (shared v))"
    by (simp add: MAX_HP_def)
  then show ?thesis by (simp add: world_invariant_def)
next
  case (Fire i c)
  with assms(2) have i: "i < length (players w)" and v: "v = on_player i (fire c) w"
    by (auto split: if_splits)
  have "registryHp (shared v) = registryHp (shared w)"
    by (cases c) (simp_all add: v on_player_frame readyToFire_def endShoot_def scene_player_at)
  moreover have "players v \<noteq> [] \<longleftrightarrow> players w \<noteq> []"
    using on_player_frame(2) [of i "fire c" w] v by (metis length_0_conv)
  ultimately show ?thesis using assms(1) by (simp add: world_invariant_def)
qed

lemma run_invariant: "world_invariant w \<Longrightarrow> run as w = Some v \<Longrightarrow> world_invariant v"
proof (induction as arbitrary: w)
  case Nil
  then show ?case by simp
next
  case (Cons a as)
  from Cons.prems(2) obtain u where u: "step a w = Some u" "run as u = Some v"
    by (auto split: option.splits)
  from Cons.prems(1) u(1) have "world_invariant u" by (rule step_invariant)
  then show ?case using u(2) by (rule Cons.IH)
qed

text \<open>
  C4 (amended). Take a scene whose registry holds no hit points (the entry is absent or
  \<open>NaN\<close>) or a number from 0 to 3, and any number of players constructed on it. In every
  state reached by constructions, frame updates, timer callbacks, and calls of
  \<open>loseHp\<close> made only while the stored hit points are above 0, the hit points every
  player reads are a number from 0 to 3. \<open>loseHp\<close> itself has no floor: the lower bound
  rests on the callers, and a game object that is still active does not give it, since
  the registry is shared and another player's hits empty it as well.
\<close>

theorem hitPoints_in_range:
  assumes "registryHp sc = Undefined \<or> registryHp sc = NaN \<or>
      (\<exists>h. registryHp sc = Num h \<and> 0 \<le> h \<and> h \<le> 3)"
    and "run as \<lparr>shared = sc, players = []\<rparr> = Some w"
    and "i < length (players w)"
  shows "\<exists>h. getHp (player_at w i) = Num h \<and> 0 \<le> h \<and> h \<le> 3"
proof -
  from assms(1) have "world_invariant \<lparr>shared = sc, players = []\<rparr>"
    by (auto simp add: world_invariant_def MAX_HP_def)
  then have "world_invariant w" using assms(2) by (rule run_invariant)
  moreover from assms(3) have "players w \<noteq> []" by auto
  ultimately have "hp_in_range (registryHp (shared w))"
    by (simp add: world_invariant_def)
  then show ?thesis
    by (cases "registryHp (shared w)")
       (simp_all add: getHp_def scene_player_at MAX_HP_def)
qed

lemma run_two_players:
  "run two_players_ops empty_world = Some (the (run two_players_ops empty_world))"
  "length (players (the (run two_players_ops empty_world))) = 2"
  "getHp (player_at (the (run two_players_ops empty_world)) 1) = Num 0"
  "active (gameObject (player_at (the (run two_players_ops empty_world)) 1))"
  "step (LoseHp 1 5000) (the (run two_players_ops empty_world)) = None"
  by (simp_all add: two_players_ops_def empty_world_def Player_new_def initHearts_def
      heart_at_def new_sprite_def on_player_def player_at_def loseHp_def updateHearts_def
      hide_from_def call_defs js_add_exact const_defs demo_defs Let_def numeral_upt_3)

theorem hitPoints_in_range_witness:
  "(registryHp demo_scene = Undefined \<or> registryHp demo_scene = NaN \<or>
      (\<exists>h. registryHp demo_scene = Num h \<and> 0 \<le> h \<and> h \<le> 3)) \<and>
   run two_players_ops \<lparr>shared = demo_scene, players = []\<rparr> =
     Some (the (run two_players_ops empty_world)) \<and>
   1 < length (players (the (run two_players_ops empty_world))) \<and>
   (\<exists>h. getHp (player_at (the (run two_players_ops empty_world)) 1) = Num h \<and>
        0 \<le> h \<and> h \<le> 3) \<and>
   getHp (player_at (the (run two_players_ops empty_world)) 1) = Num 0 \<and>
   active (gameObject (player_at (the (run two_players_ops empty_world)) 1)) \<and>
   step (LoseHp 1 5000) (the (run two_players_ops empty_world)) = None"
proof -
  have a: "registryHp demo_scene = Undefined \<or> registryHp demo_scene = NaN \<or>
      (\<exists>h. registryHp demo_scene = Num h \<and> 0 \<le> h \<and> h \<le> 3)"
    by (simp add: demo_defs)
  have r: "run two_players_ops \<lparr>shared = demo_scene, players = []\<rparr> =
      Some (the (run two_players_ops empty_world))"
    using run_two_players(1) by (simp add: empty_world_def)
  have i: "1 < length (players (the (run two_players_ops empty_world)))"
    by (simp add: run_two_players(2))
  from hitPoints_in_range [OF a r i] a r i run_two_players(3,4,5)
  show ?thesis by blast
qed

text \<open>
  The claim as stated, with \<open>loseHp\<close> free to be called and any scene to construct
  on: a fourth hit on the player constructed with 3 hit points stores -1, and a
  construction on a registry that holds 5 returns a player and leaves the 5.
\<close>

theorem hitPoints_in_range_counterexample:
  "Player_new demo_scene 10 20 1000 = Inr demo_player \<and>
   dead_player = loseHp 4000 (loseHp 3000 (loseHp 2000 demo_player)) \<and>
   getHp dead_player = Num 0 \<and>
   getHp (loseHp 5000 dead_player) = Num (- 1) \<and>
   \<not> isl (Player_new (demo_scene\<lparr>registryHp := Num 5\<rparr>) 10 20 1000) \<and>
   registry_after (Player_new (demo_scene\<lparr>registryHp := Num 5\<rparr>) 10 20 1000) = Num 5"
proof -
  have a: "getHp (loseHp 5000 dead_player) = Num (- 1)"
    by (simp add: getHp_loseHp dead_player_facts js_add_exact)
  have b: "\<not> isl (Player_new (demo_scene\<lparr>registryHp := Num 5\<rparr>) 10 20 1000)"
    by (simp add: Player_new_def initHearts_def getHp_def Let_def)
  have c: "registry_after (Player_new (demo_scene\<lparr>registryHp := Num 5\<rparr>) 10 20 1000) = Num 5"
    by (simp add: registry_after_Player_new)
  show ?thesis
    using a b c by (simp add: Player_new_demo dead_player_facts) (simp add: dead_player_def)
qed

subsection \<open>Shooting\<close>

text \<open>
  C1 (amended). For every update call on an active game object where the ranged key
  (shift) is held and the reload lock is not set, the shot is made: the reload lock is
  set and its release (\<open>ReadyToFire\<close>) is scheduled after 500, the movement lock is set
  and its release (\<open>EndShoot\<close>) is scheduled after 300, the ranged-attack animation of
  the facing is played (\<open>player-attack-weapon-down\<close>, \<open>-up\<close>, or \<open>-side\<close> for left
  and right), exactly one arrow is constructed with the facing the actor has after this
  frame's movement step, and one collider is registered between that arrow and each
  treant of the scene. On a game object that is no longer active the update returns
  before the shoot path, so the claim needs the actor to be live.
\<close>

theorem update_shoot:
  assumes "active (gameObject p)" and "shift kp" and "\<not> isLoading p"
  shows "isLoading (update kp p) \<and> isShooting (update kp p) \<and>
    timeEvents (scene (update kp p)) =
      timeEvents (scene p) @ [\<lparr>delay = 500, callback = ReadyToFire\<rparr>,
                               \<lparr>delay = 300, callback = EndShoot\<rparr>] \<and>
    \<not> isLoading (fire ReadyToFire (update kp p)) \<and>
    \<not> isShooting (fire EndShoot (update kp p)) \<and>
    orientation (update kp p) = orientation (handleMovement kp p) \<and>
    anim (gameObject (update kp p)) =
      Some (case orientation (update kp p) of
              Down \<Rightarrow> ''player-attack-weapon-down''
            | Up \<Rightarrow> ''player-attack-weapon-up''
            | Left \<Rightarrow> ''player-attack-weapon-side''
            | Right \<Rightarrow> ''player-attack-weapon-side'') \<and>
    arrows (scene (update kp p)) =
      arrows (scene p) @ [\<lparr>arrowOrientation = orientation (update kp p),
                            firedFromX = posX (gameObject p),
                            firedFromY = posY (gameObject p)\<rparr>] \<and>
    colliders (scene (update kp p)) =
      colliders (scene p) @ map (\<lambda>t. (length (arrows (scene p)), t)) (treants (scene p))"
proof -
  have names: "(case d of
        Down \<Rightarrow> ''player-attack-weapon-down''
      | Up \<Rightarrow> ''player-attack-weapon-up''
      | Left \<Rightarrow> ''player-attack-weapon-side''
      | Right \<Rightarrow> ''player-attack-weapon-side'') = shoot_animSwitch d" for d
    by (cases d) simp_all
  show ?thesis
    unfolding names using assms
    by (simp add: update_def Object_values_def act_defs move_defs call_defs const_defs Let_def)
qed

theorem update_shoot_witness:
  "active (gameObject demo_player) \<and> shift shift_left_held \<and> shift shift_held \<and>
   \<not> isLoading demo_player \<and>
   isLoading (update shift_left_held demo_player) \<and>
   isShooting (update shift_left_held demo_player) \<and>
   timeEvents (scene (update shift_left_held demo_player)) =
     [\<lparr>delay = 500, callback = ReadyToFire\<rparr>, \<lparr>delay = 300, callback = EndShoot\<rparr>] \<and>
   orientation (update shift_left_held demo_player) = Left \<and>
   anim (gameObject (update shift_left_held demo_player)) = Some ''player-attack-weapon-side'' \<and>
   arrows (scene (update shift_left_held demo_player)) =
     [\<lparr>arrowOrientation = Left, firedFromX = 10, firedFromY = 20\<rparr>] \<and>
   colliders (scene (update shift_left_held demo_player)) = [(0, 7), (0, 8)] \<and>
   orientation (update shift_held demo_player) = Down \<and>
   anim (gameObject (update shift_held demo_player)) = Some ''player-attack-weapon-down'' \<and>
   arrows (scene (update shift_held demo_player)) =
     [\<lparr>arrowOrientation = Down, firedFromX = 10, firedFromY = 20\<rparr>]"
proof -
  have a: "active (gameObject demo_player)" by (simp add: demo_defs)
  have s: "shift shift_left_held" by (simp add: demo_defs)
  have s': "shift shift_held" by (simp add: demo_defs)
  have l: "\<not> isLoading demo_player" by (simp add: demo_defs)
  have o: "orientation (handleMovement shift_left_held demo_player) = Left"
    by (simp add: demo_defs move_defs call_defs Let_def)
  have o': "orientation (handleMovement shift_held demo_player) = Down"
    by (simp add: demo_defs move_defs call_defs Let_def)
  have d: "timeEvents (scene demo_player) = []" "arrows (scene demo_player) = []"
    "colliders (scene demo_player) = []" "treants (scene demo_player) = [7, 8]"
    "posX (gameObject demo_player) = 10" "posY (gameObject demo_player) = 20"
    by (simp_all add: demo_defs)
  from update_shoot [OF a s l] update_shoot [OF a s' l] a s s' l o o' d
  show ?thesis by simp
qed

text \<open>
  The claim as stated, for every update call: on the player that has died, with shift
  held and the reload lock clear, nothing is fired.
\<close>

theorem update_shoot_counterexample:
  "shift shift_left_held \<and> \<not> isLoading dead_player \<and>
   update shift_left_held dead_player = dead_player \<and>
   \<not> isShooting (update shift_left_held dead_player) \<and>
   arrows (scene (update shift_left_held dead_player)) = [] \<and>
   timeEvents (scene (update shift_left_held dead_player)) = []"
proof -
  have same: "update shift_left_held dead_player = dead_player"
    using dead_player_facts(1) by (simp add: update_def)
  show ?thesis
    using dead_player_facts by (simp add: same) (simp add: demo_defs)
qed

text \<open>
  C2. For every update call where shift is held while the reload lock is set, the shoot
  path changes nothing: \<open>handleShootKey\<close> returns its state, the whole update is the one
  that the same keys without shift would give, no arrow is constructed, no timer event
  and no collider is added, and both locks stay as they were.
\<close>

theorem shoot_noop_while_reloading:
  assumes "shift kp" and "isLoading p"
  shows "handleShootKey kp p = p \<and>
    update kp p = update (kp\<lparr>shift := False\<rparr>) p \<and>
    arrows (scene (update kp p)) = arrows (scene p) \<and>
    timeEvents (scene (update kp p)) = timeEvents (scene p) \<and>
    colliders (scene (update kp p)) = colliders (scene p) \<and>
    isLoading (update kp p) \<and>
    isShooting (update kp p) = isShooting p"
proof -
  let ?kp' = "kp\<lparr>shift := False\<rparr>"
  let ?p2 = "handleMovement kp (setVelocity 0 p)"
  let ?p3 = "if space kp then punch ?p2 else ?p2"
  have loading: "isLoading ?p3"
    using assms(2) by (simp add: step_frames)
  have with_shift: "update kp p = (if \<not> active (gameObject p) then p else ?p3)"
    using loading assms(1) by (simp add: update_def Let_def handleShootKey_rejected)
  have without_shift: "update ?kp' p = (if \<not> active (gameObject p) then p else ?p3)"
    using loading
    by (simp add: update_def Let_def handleShootKey_released handleMovement_ignores_shift)
  have same: "update kp p = update ?kp' p"
    by (simp only: with_shift without_shift)
  have sc: "scene (update kp p) = scene p"
    by (simp add: with_shift step_frames)
  have ld: "isLoading (update kp p)"
    using assms(2) by (simp add: with_shift step_frames)
  have sh: "isShooting (update kp p) = isShooting p"
    by (simp add: with_shift step_frames)
  from assms same sc ld sh show ?thesis
    by (simp add: handleShootKey_rejected)
qed

theorem shoot_noop_while_reloading_witness:
  "shift shift_left_held \<and> isLoading (update shift_left_held demo_player) \<and>
   update shift_left_held (update shift_left_held demo_player) =
     update (shift_left_held\<lparr>shift := False\<rparr>) (update shift_left_held demo_player) \<and>
   arrows (scene (update shift_left_held (update shift_left_held demo_player))) =
     arrows (scene (update shift_left_held demo_player)) \<and>
   timeEvents (scene (update shift_left_held (update shift_left_held demo_player))) =
     timeEvents (scene (update shift_left_held demo_player)) \<and>
   isLoading (update shift_left_held (update shift_left_held demo_player))"
proof -
  have s: "shift shift_left_held" by (simp add: demo_defs)
  have l: "isLoading (update shift_left_held demo_player)"
    by (simp add: update_def Object_values_def act_defs move_defs call_defs Let_def demo_defs)
  from shoot_noop_while_reloading [OF s l] s l show ?thesis by blast
qed

subsection \<open>Movement and idling\<close>

text \<open>
  C5 (amended). For every update call on an active game object with the movement lock
  clear in which both an up/down key and a left/right key are held, velocity is set on
  both axes (left before right, up before down), and the orientation, the mirror and
  the move animation are those of the vertical key: the horizontal call of \<open>go\<close> is
  made with \<open>shouldAnimate\<close> false. The move animation stays the current one unless a
  punch or a shot of the same frame plays its own.
\<close>

theorem diagonal_movement:
  assumes "active (gameObject p)" and "\<not> isShooting p"
    and "up kp \<or> down kp" and "left kp \<or> right kp"
  shows "velocityX (gameObject (update kp p)) = (if left kp then - 100 else 100) \<and>
    velocityY (gameObject (update kp p)) = (if up kp then - 100 else 100) \<and>
    orientation (update kp p) = (if up kp then Up else Down) \<and>
    \<not> flipX (gameObject (update kp p)) \<and>
    anim (gameObject (handleMovement kp (setVelocity 0 p))) =
      Some (if up kp then ''player-move-up'' else ''player-move-down'') \<and>
    (\<not> space kp \<and> (\<not> shift kp \<or> isLoading p) \<longrightarrow>
       anim (gameObject (update kp p)) =
         Some (if up kp then ''player-move-up'' else ''player-move-down''))"
proof -
  have v: "up kp \<or> (\<not> up kp \<and> down kp)" using assms(3) by blast
  have h: "left kp \<or> (\<not> left kp \<and> right kp)" using assms(4) by blast
  from v h assms(1,2) show ?thesis
    by (elim disjE conjE)
       (simp_all add: update_def Object_values_def act_defs move_defs call_defs const_defs Let_def)
qed

theorem diagonal_movement_witness:
  "active (gameObject demo_player) \<and> \<not> isShooting demo_player \<and>
   (up up_left_held \<or> down up_left_held) \<and> (left up_left_held \<or> right up_left_held) \<and>
   velocityX (gameObject (update up_left_held demo_player)) = - 100 \<and>
   velocityY (gameObject (update up_left_held demo_player)) = - 100 \<and>
   orientation (update up_left_held demo_player) = Up"
proof -
  have a: "active (gameObject demo_player)" by (simp add: demo_defs)
  have s: "\<not> isShooting demo_player" by (simp add: demo_defs)
  have v: "up up_left_held \<or> down up_left_held" by (simp add: demo_defs)
  have h: "left up_left_held \<or> right up_left_held" by (simp add: demo_defs)
  have k: "left up_left_held" "up up_left_held" by (simp_all add: demo_defs)
  from diagonal_movement [OF a s v h] a s v h k show ?thesis by simp
qed

text \<open>
  The claim as stated gives the horizontal key the animation: with up and left held the
  orientation would be left, the sprite mirrored and the left-move animation playing.
\<close>

theorem diagonal_movement_counterexample:
  "active (gameObject demo_player) \<and> \<not> isShooting demo_player \<and>
   up up_left_held \<and> left up_left_held \<and>
   orientation (update up_left_held demo_player) = Up \<and>
   orientation (update up_left_held demo_player) \<noteq> Left \<and>
   \<not> flipX (gameObject (update up_left_held demo_player)) \<and>
   anim (gameObject (update up_left_held demo_player)) = Some ''player-move-up'' \<and>
   anim (gameObject (update up_left_held demo_player)) \<noteq> Some ''player-move-left''"
  by (simp add: update_def Object_values_def act_defs move_defs call_defs const_defs Let_def
      demo_defs)

text \<open>
  C8. For every update call on an active game object in which no key of the snapshot is
  held, both velocity components are zero after the call and the orientation is
  unchanged; if moreover the reload lock is clear, the idle animation of the orientation
  is the current one (\<open>player-idle-down\<close>, \<open>player-idle-up\<close>, or \<open>player-idle-side\<close>
  for left and right) and the sprite is mirrored exactly when the orientation is left.
\<close>

theorem update_no_keys:
  assumes "active (gameObject p)"
    and "\<not> (left kp \<or> right kp \<or> up kp \<or> down kp \<or> space kp \<or> shift kp)"
  shows "velocityX (gameObject (update kp p)) = 0 \<and>
    velocityY (gameObject (update kp p)) = 0 \<and>
    orientation (update kp p) = orientation p \<and>
    (\<not> isLoading p \<longrightarrow>
       anim (gameObject (update kp p)) =
         Some (case orientation p of
                 Down \<Rightarrow> ''player-idle-down''
               | Up \<Rightarrow> ''player-idle-up''
               | Left \<Rightarrow> ''player-idle-side''
               | Right \<Rightarrow> ''player-idle-side'') \<and>
       flipX (gameObject (update kp p)) = (orientation p = Left))"
  using assms
  by (cases "orientation p")
     (simp_all add: update_def Object_values_def act_defs move_defs call_defs const_defs Let_def)

theorem update_no_keys_witness:
  "active (gameObject demo_player) \<and>
   active (gameObject (update left_held demo_player)) \<and>
   \<not> (left no_keys \<or> right no_keys \<or> up no_keys \<or> down no_keys \<or> space no_keys \<or>
      shift no_keys) \<and>
   \<not> isLoading demo_player \<and>
   velocityX (gameObject (update no_keys demo_player)) = 0 \<and>
   velocityY (gameObject (update no_keys demo_player)) = 0 \<and>
   anim (gameObject (update no_keys demo_player)) = Some ''player-idle-down'' \<and>
   \<not> flipX (gameObject (update no_keys demo_player)) \<and>
   orientation (update left_held demo_player) = Left \<and>
   velocityX (gameObject (update no_keys (update left_held demo_player))) = 0 \<and>
   anim (gameObject (update no_keys (update left_held demo_player))) =
     Some ''player-idle-side'' \<and>
   flipX (gameObject (update no_keys (update left_held demo_player)))"
proof -
  have a: "active (gameObject demo_player)" by (simp add: demo_defs)
  have k: "\<not> (left no_keys \<or> right no_keys \<or> up no_keys \<or> down no_keys \<or> space no_keys \<or>
      shift no_keys)" by (simp add: demo_defs)
  have l: "\<not> isLoading demo_player" "orientation demo_player = Down"
    by (simp_all add: demo_defs)
  have a': "active (gameObject (update left_held demo_player))"
    using a by (simp add: update_frame)
  have l': "\<not> isLoading (update left_held demo_player)"
    "orientation (update left_held demo_player) = Left"
    by (simp_all add: update_def Object_values_def act_defs move_defs call_defs Let_def
        demo_defs)
  from update_no_keys [OF a k] update_no_keys [OF a' k] a a' k l l' show ?thesis by simp
qed

text \<open>
  C10. For every input snapshot, update on a game object that is no longer active
  returns the state it was given: velocity, orientation, locks, animation, hit points
  and the scene's logs of arrows, timer events and colliders are all unchanged.
\<close>

theorem update_inactive_noop:
  "\<not> active (gameObject p) \<Longrightarrow> update kp p = p"
  by (simp add: update_def)

theorem update_inactive_noop_witness:
  "\<not> active (gameObject dead_player) \<and> update up_left_held dead_player = dead_player"
proof -
  have dead: "\<not> active (gameObject dead_player)"
    by (rule dead_player_facts(1))
  from update_inactive_noop [OF dead] dead show ?thesis by simp
qed

subsection \<open>The invulnerability window\<close>

text \<open>
  C9. \<open>canGetHit\<close> at time \<open>now\<close> is true exactly when the time passed since
  \<open>lastTimeHit\<close> is more than 500; after a call of \<open>loseHp\<close> at time \<open>t\<close> that is the
  time passed since \<open>t\<close>.
\<close>

theorem canGetHit_iff:
  "(canGetHit now p \<longleftrightarrow> now - lastTimeHit p > 500) \<and>
   (canGetHit now (loseHp t p) \<longleftrightarrow> now - t > 500)"
  by (simp add: canGetHit_def HIT_DELAY_def lastTimeHit_loseHp)

end
